theory Spec2Isabelle
  imports Main
begin

section \<open>JavaScript values, as far as the sandbox wrapper observes them\<close>

text \<open>
  The wrapper that \<open>runCode\<close> writes into the sandbox document applies a handful of
  platform operations to the values the executed code hands to it: \<open>typeof\<close>,
  \<open>JSON.stringify(a, null, 2)\<close>, \<open>String(a)\<close>, truthiness, reading the properties
  \<open>stack\<close> and \<open>message\<close>, and the structured clone made by \<open>postMessage\<close>.
  A number is given by the text \<open>String\<close> yields for it (\<open>4\<close>, \<open>1.5\<close>, \<open>1e+21\<close>, \<open>NaN\<close>,
  \<open>Infinity\<close>), which decides everything the wrapper can observe of a number. Anything
  with \<open>typeof\<close> \<open>'object'\<close> or \<open>'function'\<close> (other than \<open>null\<close>) is a \<open>JObj\<close>, which
  carries what each of these operations yields on it, since that is programmable in
  JavaScript (\<open>toJSON\<close>, \<open>toString\<close>, getters, cycles). An operation that throws yields
  \<open>Inl\<close> of the thrown value.

  A BigInt is observed by the wrapper exactly as the number with the same text (the
  wrapper compares \<open>typeof\<close> with \<open>'object'\<close> only) and is represented by it.

  Strings are lists of 8-bit characters, read as the code units U+0000 to U+00FF.
\<close>

datatype jsval =
    JUndefined
  | JNull
  | JBool bool
  | JNum string
  | JStr string
  | JSymbol string
  | JObj (callable: bool)
         (to_json: "jsval + string option")
         (to_string: "jsval + string")
         (get_stack: "jsval + jsval")
         (get_message: "jsval + jsval")
         (clones: bool)

fun typeof :: "jsval \<Rightarrow> string" where
  "typeof JUndefined = ''undefined''"
| "typeof JNull = ''object''"
| "typeof (JBool b) = ''boolean''"
| "typeof (JNum t) = ''number''"
| "typeof (JStr s) = ''string''"
| "typeof (JSymbol d) = ''symbol''"
| "typeof (JObj c j s st m cl) = (if c then ''function'' else ''object'')"

text \<open>The falsy numbers are the two zeros, both printed \<open>0\<close>, and \<open>NaN\<close>.\<close>

fun truthy :: "jsval \<Rightarrow> bool" where
  "truthy JUndefined = False"
| "truthy JNull = False"
| "truthy (JBool b) = b"
| "truthy (JNum t) = (t \<noteq> ''0'' \<and> t \<noteq> ''NaN'')"
| "truthy (JStr s) = (s \<noteq> [])"
| "truthy (JSymbol d) = True"
| "truthy (JObj c j s st m cl) = True"

text \<open>\<open>String(a)\<close>.\<close>

fun String_of :: "jsval \<Rightarrow> jsval + string" where
  "String_of JUndefined = Inr ''undefined''"
| "String_of JNull = Inr ''null''"
| "String_of (JBool b) = Inr (if b then ''true'' else ''false'')"
| "String_of (JNum t) = Inr t"
| "String_of (JStr s) = Inr s"
| "String_of (JSymbol d) = Inr (''Symbol('' @ d @ '')'')"
| "String_of (JObj c j s st m cl) = s"

text \<open>
  \<open>JSON.stringify(a, null, 2)\<close>: a string, \<open>undefined\<close> (\<open>None\<close>) or an exception. On a
  primitive the indentation has no effect; a string is quoted as \<open>QuoteJSONString\<close>
  does; a number that is not finite gives \<open>null\<close>.
\<close>

definition digit :: "nat \<Rightarrow> char" where
  "digit n = ''0123456789abcdef'' ! n"

definition json_escape :: "char \<Rightarrow> string" where
  "json_escape c =
     (if c = CHR 0x22 then [CHR 0x5C, CHR 0x22]
      else if c = CHR 0x5C then [CHR 0x5C, CHR 0x5C]
      else if c = CHR 0x08 then [CHR 0x5C, CHR ''b'']
      else if c = CHR 0x09 then [CHR 0x5C, CHR ''t'']
      else if c = CHR 0x0A then [CHR 0x5C, CHR ''n'']
      else if c = CHR 0x0C then [CHR 0x5C, CHR ''f'']
      else if c = CHR 0x0D then [CHR 0x5C, CHR ''r'']
      else if (of_char c :: nat) < 32
        then [CHR 0x5C, CHR ''u'', CHR ''0'', CHR ''0'',
              digit (of_char c div 16), digit (of_char c mod 16)]
      else [c])"

definition json_quote :: "string \<Rightarrow> string" where
  "json_quote s = [CHR 0x22] @ concat (map json_escape s) @ [CHR 0x22]"

fun JSON_stringify :: "jsval \<Rightarrow> jsval + string option" where
  "JSON_stringify JUndefined = Inr None"
| "JSON_stringify JNull = Inr (Some ''null'')"
| "JSON_stringify (JBool b) = Inr (Some (if b then ''true'' else ''false''))"
| "JSON_stringify (JNum t) =
     Inr (Some (if t \<in> set [''NaN'', ''Infinity'', ''-Infinity''] then ''null'' else t))"
| "JSON_stringify (JStr s) = Inr (Some (json_quote s))"
| "JSON_stringify (JSymbol d) = Inr None"
| "JSON_stringify (JObj c j s st m cl) = j"

text \<open>
  The structured clone of \<open>postMessage\<close>: symbols and functions raise \<open>DataCloneError\<close>,
  an object says for itself whether it can be cloned.
\<close>

fun cloneable :: "jsval \<Rightarrow> bool" where
  "cloneable (JSymbol d) = False"
| "cloneable (JObj c j s st m cl) = (\<not> c \<and> cl)"
| "cloneable v = True"

section \<open>The message protocol and the script in the sandbox document\<close>

text \<open>\<open>{type, msg}\<close>, the data of one \<open>postMessage\<close>.\<close>

record message =
  mtype :: string
  msg :: jsval

text \<open>\<open>const send=(type,msg)=>parent.postMessage({type,msg},'*')\<close>: the message posted.\<close>

definition send :: "string \<Rightarrow> jsval \<Rightarrow> message" where
  "send ty v = \<lparr>mtype = ty, msg = v\<rparr>"

text \<open>
  What \<open>new Function(code)\<close> followed by \<open>fn()\<close> does is the JavaScript engine's business,
  not this repository's. The engine is a parameter \<open>string \<Rightarrow> behaviour\<close>. A behaviour
  lists, in order, what the code does that reaches the host before its call returns: a
  call of one of console's methods (as the wrapper has set them up; method name and
  arguments), or a call of \<open>parent.postMessage\<close> by the code itself, which is in scope
  for it, with the data it posts (data of the shape \<open>{type, msg}\<close> with a string for
  \<open>type\<close>, the only data that the host's listener takes for a message without failing;
  the empty string stands for what it drops). Then how the call ends; then what callbacks
  registered by the code (timers, promises) do in the same two ways after the wrapper
  has finished; and whether the code has left the globals that the wrapper uses after
  it (\<open>parent\<close>, \<open>JSON\<close>, \<open>String\<close>) as they were. A \<open>SyntaxError\<close> of \<open>new Function\<close> is
  an outcome \<open>Throws\<close> with no actions. What an operation yields on a value is fixed
  with the value: serialising an argument does not itself call the console.
\<close>

datatype action = Console string "jsval list" | Post message

datatype outcome = Returns jsval | Throws jsval | Diverges

record behaviour =
  calls :: "action list"
  outcome :: outcome
  later :: "action list"
  intact :: bool

text \<open>
  The arrow function of \<open>args.map\<close>:
  \<^verbatim>\<open>if(typeof a==='object'){try{return JSON.stringify(a,null,2);}catch(e){return '[object]';}}
  return String(a);\<close>
\<close>

definition serialise :: "jsval \<Rightarrow> jsval + string option" where
  "serialise a =
     (if typeof a = ''object''
      then (case JSON_stringify a of Inl e \<Rightarrow> Inr (Some ''[object]'') | Inr t \<Rightarrow> Inr t)
      else (case String_of a of Inl e \<Rightarrow> Inl e | Inr t \<Rightarrow> Inr (Some t)))"

text \<open>\<open>args.map(...)\<close>: the first exception ends the map.\<close>

fun map_serialise :: "jsval list \<Rightarrow> jsval + string option list" where
  "map_serialise [] = Inr []"
| "map_serialise (a # as) =
     (case serialise a of
        Inl e \<Rightarrow> Inl e
      | Inr t \<Rightarrow> (case map_serialise as of Inl e \<Rightarrow> Inl e | Inr ts \<Rightarrow> Inr (t # ts)))"

text \<open>\<open>Array.prototype.join\<close>: an \<open>undefined\<close> element is joined as the empty string.\<close>

fun join :: "string \<Rightarrow> string option list \<Rightarrow> string" where
  "join sep [] = []"
| "join sep [t] = (case t of None \<Rightarrow> [] | Some x \<Rightarrow> x)"
| "join sep (t # ts) = (case t of None \<Rightarrow> [] | Some x \<Rightarrow> x) @ sep @ join sep ts"

text \<open>
  The replacement of \<open>console[k]\<close>:
  \<^verbatim>\<open>try{send(k,args.map(...).join(' '));}catch(e){}\<close>
  (the call of the original method that follows posts nothing).
\<close>

definition console_shim :: "string \<Rightarrow> jsval list \<Rightarrow> message list" where
  "console_shim k args =
     (case map_serialise args of
        Inl e \<Rightarrow> []
      | Inr ts \<Rightarrow> [send k (JStr (join '' '' ts))])"

text \<open>Only the four methods of \<open>['log','info','warn','error']\<close> are replaced.\<close>

definition console_call :: "string \<times> jsval list \<Rightarrow> message list" where
  "console_call c =
     (if fst c \<in> set [''log'', ''info'', ''warn'', ''error'']
      then console_shim (fst c) (snd c) else [])"

text \<open>What one action posts, and what a sequence of actions posts, in order.\<close>

fun action_messages :: "action \<Rightarrow> message list" where
  "action_messages (Console k args) = console_call (k, args)"
| "action_messages (Post m) = [m]"

definition emitted :: "action list \<Rightarrow> message list" where
  "emitted as = concat (map action_messages as)"

text \<open>
  \<open>e && (e.stack||e.message||String(e))\<close>. \<open>or_else\<close> is \<open>||\<close> on operands that may
  throw. Only a \<open>JObj\<close> has the two properties; on a truthy primitive both reads give
  \<open>undefined\<close>; a falsy \<open>e\<close> is the value of the whole expression.
\<close>

definition or_else :: "jsval + jsval \<Rightarrow> jsval + jsval \<Rightarrow> jsval + jsval" where
  "or_else a b = (case a of Inl e \<Rightarrow> Inl e | Inr v \<Rightarrow> if truthy v then Inr v else b)"

definition String_val :: "jsval \<Rightarrow> jsval + jsval" where
  "String_val e = (case String_of e of Inl x \<Rightarrow> Inl x | Inr t \<Rightarrow> Inr (JStr t))"

fun diagnostic :: "jsval \<Rightarrow> jsval + jsval" where
  "diagnostic (JObj c j s st m cl) = or_else st (or_else m (String_val (JObj c j s st m cl)))"
| "diagnostic e =
     (if truthy e then or_else (Inr JUndefined) (or_else (Inr JUndefined) (String_val e))
      else Inr e)"

text \<open>
  The catch branch:
  \<^verbatim>\<open>send('error', e && (e.stack||e.message||String(e)));
  send('done','error');\<close>
  An exception while the diagnostic is computed, or the \<open>DataCloneError\<close> of a payload
  that cannot be cloned, leaves the branch before anything is posted.
\<close>

definition on_catch :: "jsval \<Rightarrow> message list" where
  "on_catch e =
     (case diagnostic e of
        Inl x \<Rightarrow> []
      | Inr v \<Rightarrow> if cloneable v then [send ''error'' v, send ''done'' (JStr ''error'')] else [])"

text \<open>
  After \<open>fn()\<close> has returned:
  \<^verbatim>\<open>if(result!==undefined) send('result', (typeof result==='object'? JSON.stringify(result,null,2): String(result)));
  send('done','ok');\<close>
  inside the \<open>try\<close>: an exception of the serialisation goes to the catch branch.
\<close>

definition result_payload :: "jsval \<Rightarrow> jsval + string option" where
  "result_payload r =
     (if typeof r = ''object'' then JSON_stringify r
      else (case String_of r of Inl e \<Rightarrow> Inl e | Inr t \<Rightarrow> Inr (Some t)))"

definition on_return :: "jsval \<Rightarrow> message list" where
  "on_return r =
     (if r \<noteq> JUndefined
      then (case result_payload r of
              Inl e \<Rightarrow> on_catch e
            | Inr t \<Rightarrow>
                [send ''result'' (case t of None \<Rightarrow> JUndefined | Some x \<Rightarrow> JStr x),
                 send ''done'' (JStr ''ok'')])
      else [send ''done'' (JStr ''ok'')])"

text \<open>
  The messages that reach the host while the wrapper runs, in order: those of the code's
  actions, then those of the wrapper's \<open>try\<close> or \<open>catch\<close>.
\<close>

definition wrapper_messages :: "behaviour \<Rightarrow> message list" where
  "wrapper_messages b =
     emitted (calls b) @
     (case outcome b of
        Returns r \<Rightarrow> on_return r
      | Throws e \<Rightarrow> on_catch e
      | Diverges \<Rightarrow> [])"

text \<open>
  All messages of one sandbox document whose script is the whole wrapper: those of the
  wrapper's run, then those of callbacks afterwards (none when the code never returns).
  Where the code has changed the globals the wrapper relies on, the model does not say
  (\<open>None\<close>).
\<close>

definition sandbox_messages :: "behaviour \<Rightarrow> message list option" where
  "sandbox_messages b =
     (if intact b
      then Some (wrapper_messages b @
                 (case outcome b of Diverges \<Rightarrow> [] | _ \<Rightarrow> emitted (later b)))
      else None)"

text \<open>
  When the wrapper reaches its last \<open>send\<close>: the call of the code ends, and the value the
  catch branch receives, if any (thrown by the code or by the serialisation of its
  result), has a diagnostic that can be computed and cloned.
\<close>

definition reportable :: "jsval \<Rightarrow> bool" where
  "reportable e = (case diagnostic e of Inl x \<Rightarrow> False | Inr v \<Rightarrow> cloneable v)"

definition caught :: "outcome \<Rightarrow> jsval option" where
  "caught oc =
     (case oc of
        Returns r \<Rightarrow>
          (if r \<noteq> JUndefined
           then (case result_payload r of Inl e \<Rightarrow> Some e | Inr t \<Rightarrow> None)
           else None)
      | Throws e \<Rightarrow> Some e
      | Diverges \<Rightarrow> None)"

definition completes :: "behaviour \<Rightarrow> bool" where
  "completes b =
     (outcome b \<noteq> Diverges \<and>
      (case caught (outcome b) of None \<Rightarrow> True | Some e \<Rightarrow> reportable e))"

text \<open>An action by which the code itself posts a \<open>done\<close> message.\<close>

fun posts_done :: "action \<Rightarrow> bool" where
  "posts_done (Post m) = (mtype m = ''done'')"
| "posts_done (Console k args) = False"

section \<open>A fragment of JavaScript\<close>

text \<open>
  For a small fragment of the language what the engine does is spelled out here, so that
  a scenario can start from its source text: statements separated by semicolons, each
  a call of a console method, a \<open>return\<close> or a \<open>throw\<close>; expressions built with \<open>+\<close> from
  decimal integer literals, string literals without escapes, \<open>null\<close>, \<open>undefined\<close>,
  \<open>true\<close> and \<open>false\<close>; blanks as the only white space. \<open>js_run\<close> is \<open>None\<close> on every text
  outside the fragment, and where a number would leave the integers from 0 to
  \<open>2^53 - 1\<close>, which \<open>String\<close> prints digit by digit.
\<close>

datatype token = TId string | TNum nat | TStr string | TSym char

datatype lexmode = Between | InId string | InNum string | InStr char string

definition id_start :: "char \<Rightarrow> bool" where
  "id_start c =
     (let n = (of_char c :: nat)
      in (65 \<le> n \<and> n \<le> 90) \<or> (97 \<le> n \<and> n \<le> 122) \<or> c = CHR ''_'' \<or> c = CHR ''$'')"

definition is_digit :: "char \<Rightarrow> bool" where
  "is_digit c = (48 \<le> (of_char c :: nat) \<and> (of_char c :: nat) \<le> 57)"

definition max_safe :: nat where
  "max_safe = 9007199254740991"

definition literal_value :: "string \<Rightarrow> nat" where
  "literal_value ds = foldl (\<lambda>n c. 10 * n + (of_char c - 48)) 0 ds"

text \<open>What the character after a token, or between tokens, begins.\<close>

definition opens :: "char \<Rightarrow> (lexmode \<times> token list) option" where
  "opens c =
     (if c = CHR '' '' then Some (Between, [])
      else if id_start c then Some (InId [c], [])
      else if is_digit c then Some (InNum [c], [])
      else if c = CHR 0x27 \<or> c = CHR 0x22 then Some (InStr c [], [])
      else if c \<in> set ''.(),;+'' then Some (Between, [TSym c])
      else None)"

fun tokens :: "lexmode \<Rightarrow> string \<Rightarrow> token list option" where
  "tokens Between [] = Some []"
| "tokens Between (c # cs) =
     (case opens c of None \<Rightarrow> None | Some (m, ts) \<Rightarrow> map_option ((@) ts) (tokens m cs))"
| "tokens (InId w) [] = Some [TId w]"
| "tokens (InId w) (c # cs) =
     (if id_start c \<or> is_digit c then tokens (InId (w @ [c])) cs
      else (case opens c of
              None \<Rightarrow> None
            | Some (m, ts) \<Rightarrow> map_option ((@) (TId w # ts)) (tokens m cs)))"
| "tokens (InNum ds) [] =
     (if literal_value ds \<le> max_safe then Some [TNum (literal_value ds)] else None)"
| "tokens (InNum ds) (c # cs) =
     (if is_digit c then (if ds = ''0'' then None else tokens (InNum (ds @ [c])) cs)
      else if id_start c \<or> c = CHR ''.'' \<or> max_safe < literal_value ds then None
      else (case opens c of
              None \<Rightarrow> None
            | Some (m, ts) \<Rightarrow> map_option ((@) (TNum (literal_value ds) # ts)) (tokens m cs)))"
| "tokens (InStr q s) [] = None"
| "tokens (InStr q s) (c # cs) =
     (if c = q then map_option ((#) (TStr s)) (tokens Between cs)
      else if c = CHR 0x5C \<or> c = CHR 0x0A \<or> c = CHR 0x0D then None
      else tokens (InStr q (s @ [c])) cs)"

text \<open>The values of the fragment and its expressions.\<close>

datatype ival = INum nat | IStr string | INull | IUndefined | IBool bool

datatype expr = Lit ival | Plus expr expr

datatype stmt = SConsole string "expr list" | SReturn "expr option" | SThrow expr

fun term_of :: "token \<Rightarrow> expr option" where
  "term_of (TNum n) = Some (Lit (INum n))"
| "term_of (TStr s) = Some (Lit (IStr s))"
| "term_of (TId w) =
     (if w = ''null'' then Some (Lit INull)
      else if w = ''undefined'' then Some (Lit IUndefined)
      else if w = ''true'' then Some (Lit (IBool True))
      else if w = ''false'' then Some (Lit (IBool False))
      else None)"
| "term_of (TSym c) = None"

fun sum_of :: "expr \<Rightarrow> token list \<Rightarrow> expr option" where
  "sum_of e [] = Some e"
| "sum_of e [t] = None"
| "sum_of e (p # t # ts) =
     (if p = TSym CHR ''+''
      then (case term_of t of None \<Rightarrow> None | Some e' \<Rightarrow> sum_of (Plus e e') ts)
      else None)"

fun expr_of :: "token list \<Rightarrow> expr option" where
  "expr_of [] = None"
| "expr_of (t # ts) = (case term_of t of None \<Rightarrow> None | Some e \<Rightarrow> sum_of e ts)"

fun split_on :: "token \<Rightarrow> token list \<Rightarrow> token list list" where
  "split_on sep [] = [[]]"
| "split_on sep (t # ts) =
     (if t = sep then [] # split_on sep ts
      else (case split_on sep ts of [] \<Rightarrow> [[t]] | p # ps \<Rightarrow> (t # p) # ps))"

definition args_of :: "token list \<Rightarrow> expr list option" where
  "args_of ts = (if ts = [] then Some [] else those (map expr_of (split_on (TSym CHR '','') ts)))"

text \<open>
  One statement from the tokens between two semicolons; none from no tokens. The
  console methods of the fragment are the four the wrapper replaces and \<open>debug\<close>.
\<close>

fun stmt_of :: "token list \<Rightarrow> stmt list option" where
  "stmt_of [] = Some []"
| "stmt_of (t # ts) =
     (if t = TId ''return''
      then (if ts = [] then Some [SReturn None]
            else map_option (\<lambda>e. [SReturn (Some e)]) (expr_of ts))
      else if t = TId ''throw'' then map_option (\<lambda>e. [SThrow e]) (expr_of ts)
      else if t = TId ''console''
      then (case ts of
              d # m # p # as \<Rightarrow>
                (if d = TSym CHR ''.'' \<and> p = TSym CHR ''('' \<and> as \<noteq> []
                    \<and> last as = TSym CHR '')''
                    \<and> m \<in> set (map TId [''log'', ''info'', ''warn'', ''error'', ''debug''])
                 then map_option (\<lambda>es. [SConsole (case m of TId w \<Rightarrow> w | _ \<Rightarrow> []) es])
                        (args_of (butlast as))
                 else None)
            | _ \<Rightarrow> None)
      else None)"

definition parse :: "token list \<Rightarrow> stmt list option" where
  "parse ts = map_option concat (those (map stmt_of (split_on (TSym CHR '';'') ts)))"

text \<open>
  \<open>+\<close>: with a string operand the concatenation of the two string conversions, else
  the sum of the two numeric conversions (\<open>null\<close> and \<open>false\<close> are 0, \<open>true\<close> is 1;
  \<open>undefined\<close> is \<open>NaN\<close>, outside the fragment).
\<close>

fun digits :: "nat \<Rightarrow> string" where
  "digits n = (if n < 10 then [digit n] else digits (n div 10) @ [digit (n mod 10)])"

declare digits.simps [simp del]

fun to_str :: "ival \<Rightarrow> string" where
  "to_str (INum n) = digits n"
| "to_str (IStr s) = s"
| "to_str INull = ''null''"
| "to_str IUndefined = ''undefined''"
| "to_str (IBool b) = (if b then ''true'' else ''false'')"

fun to_num :: "ival \<Rightarrow> nat option" where
  "to_num (INum n) = Some n"
| "to_num (IStr s) = None"
| "to_num INull = Some 0"
| "to_num IUndefined = None"
| "to_num (IBool b) = Some (if b then 1 else 0)"

fun is_str :: "ival \<Rightarrow> bool" where
  "is_str (IStr s) = True"
| "is_str v = False"

definition js_plus :: "ival \<Rightarrow> ival \<Rightarrow> ival option" where
  "js_plus a b =
     (if is_str a \<or> is_str b then Some (IStr (to_str a @ to_str b))
      else (case (to_num a, to_num b) of
              (Some x, Some y) \<Rightarrow> if x + y \<le> max_safe then Some (INum (x + y)) else None
            | _ \<Rightarrow> None))"

fun eval :: "expr \<Rightarrow> ival option" where
  "eval (Lit v) = Some v"
| "eval (Plus a b) =
     (case eval a of
        None \<Rightarrow> None
      | Some x \<Rightarrow> (case eval b of None \<Rightarrow> None | Some y \<Rightarrow> js_plus x y))"

fun to_jsval :: "ival \<Rightarrow> jsval" where
  "to_jsval (INum n) = JNum (digits n)"
| "to_jsval (IStr s) = JStr s"
| "to_jsval INull = JNull"
| "to_jsval IUndefined = JUndefined"
| "to_jsval (IBool b) = JBool b"

definition finished :: "action list \<Rightarrow> outcome \<Rightarrow> behaviour" where
  "finished as oc = \<lparr>calls = as, outcome = oc, later = [], intact = True\<rparr>"

fun exec :: "stmt list \<Rightarrow> action list \<Rightarrow> behaviour option" where
  "exec [] as = Some (finished as (Returns JUndefined))"
| "exec (SConsole m es # ss) as =
     (case those (map eval es) of
        None \<Rightarrow> None
      | Some vs \<Rightarrow> exec ss (as @ [Console m (map to_jsval vs)]))"
| "exec (SReturn None # ss) as = Some (finished as (Returns JUndefined))"
| "exec (SReturn (Some e) # ss) as =
     map_option (\<lambda>v. finished as (Returns (to_jsval v))) (eval e)"
| "exec (SThrow e # ss) as = map_option (\<lambda>v. finished as (Throws (to_jsval v))) (eval e)"

definition js_run :: "string \<Rightarrow> behaviour option" where
  "js_run code =
     (case tokens Between code of
        None \<Rightarrow> None
      | Some ts \<Rightarrow> (case parse ts of None \<Rightarrow> None | Some ss \<Rightarrow> exec ss []))"

section \<open>The host page\<close>

text \<open>
  The module-level variables and the parts of the DOM and of the browser that the script
  reads and writes: \<open>els.code.value\<close>, the two checkboxes, the \<open>data-theme\<close> attribute of
  the body, the children of \<open>els.output\<close> (one entry per \<open>appendLine\<close>: its type and the
  value assigned to the \<open>textContent\<close> of its body), class and text of \<open>els.status\<close>, the
  documents assigned to \<open>els.sandbox.srcdoc\<close> so far (oldest first, each named by the code
  embedded in it; the last one is the live sandbox), \<open>localStorage\<close> with the browser's
  test of which contents fit its quota, \<open>lastRunCode\<close>, \<open>debounceId\<close>, and the
  window's pending timeouts (identifier and due time in milliseconds) with its clock.
\<close>

record state =
  code_value :: string
  autorun_checked :: bool
  acToggle_checked :: bool
  data_theme :: "string option"
  output_log :: "(string \<times> jsval) list"
  status :: "string \<times> string"
  srcdocs :: "string list"
  localStorage :: "string \<rightharpoonup> string"
  quota_admits :: "(string \<rightharpoonup> string) \<Rightarrow> bool"
  lastRunCode :: string
  debounceId :: "nat option"
  timers :: "(nat \<times> nat) list"
  next_id :: nat
  now :: nat

definition STORAGE_KEY_CODE :: string where
  "STORAGE_KEY_CODE = ''sweetjs_code_v1''"

definition STORAGE_KEY_THEME :: string where
  "STORAGE_KEY_THEME = ''sweetjs_theme_v1''"

definition STORAGE_KEY_AC :: string where
  "STORAGE_KEY_AC = ''sweetjs_ac_v1''"

definition DEBOUNCE_MS :: nat where
  "DEBOUNCE_MS = 600"

text \<open>
  A piece of the script either runs to its end or is left by an exception; both leave a
  state behind. An exception in a listener ends that listener only; an exception at the
  script's top level ends the script.
\<close>

datatype completion = Completed state | Threw state

fun after :: "completion \<Rightarrow> state" where
  "after (Completed s) = s"
| "after (Threw s) = s"

text \<open>
  \<open>localStorage.setItem\<close> throws \<open>QuotaExceededError\<close>, and stores nothing, when the new
  content does not fit. The script never catches it.
\<close>

definition setItem :: "string \<Rightarrow> string \<Rightarrow> state \<Rightarrow> completion" where
  "setItem k v s =
     (if quota_admits s ((localStorage s)(k \<mapsto> v))
      then Completed (s\<lparr>localStorage := (localStorage s)(k \<mapsto> v)\<rparr>)
      else Threw s)"

definition setTheme :: "string \<Rightarrow> state \<Rightarrow> completion" where
  "setTheme mode s =
     (if mode = ''dark''
      then setItem STORAGE_KEY_THEME ''dark'' (s\<lparr>data_theme := Some ''dark''\<rparr>)
      else setItem STORAGE_KEY_THEME ''light'' (s\<lparr>data_theme := None\<rparr>))"

text \<open>
  \<open>initState\<close>. \<open>if (savedCode)\<close> is false for a missing entry and for the empty string:
  then the editor keeps the content the page's markup gave it.
\<close>

definition restore_ac :: "state \<Rightarrow> state" where
  "restore_ac s =
     (case localStorage s STORAGE_KEY_AC of
        None \<Rightarrow> s
      | Some ac \<Rightarrow> s\<lparr>acToggle_checked := (ac = ''on'')\<rparr>)"

definition initState :: "state \<Rightarrow> completion" where
  "initState s =
     (let s1 = (case localStorage s STORAGE_KEY_CODE of
                  None \<Rightarrow> s
                | Some savedCode \<Rightarrow> if savedCode \<noteq> [] then s\<lparr>code_value := savedCode\<rparr> else s)
      in if localStorage s1 STORAGE_KEY_THEME = Some ''dark''
         then (case setTheme ''dark'' s1 of
                 Threw s2 \<Rightarrow> Threw s2
               | Completed s2 \<Rightarrow> Completed (restore_ac s2))
         else Completed (restore_ac s1))"

definition setStatus :: "string \<Rightarrow> string \<Rightarrow> state \<Rightarrow> state" where
  "setStatus st text s = s\<lparr>status := (st, text)\<rparr>"

definition appendLine :: "string \<Rightarrow> jsval \<Rightarrow> state \<Rightarrow> state" where
  "appendLine ty m s = s\<lparr>output_log := output_log s @ [(ty, m)]\<rparr>"

definition clearOutput :: "state \<Rightarrow> state" where
  "clearOutput s = s\<lparr>output_log := []\<rparr>"

text \<open>
  \<open>String.prototype.trim\<close> removes white space and line terminators at both ends; among
  the code units U+0000 to U+00FF these are the seven below.
\<close>

definition is_ws :: "char \<Rightarrow> bool" where
  "is_ws c = (c \<in> set [CHR 0x09, CHR 0x0A, CHR 0x0B, CHR 0x0C, CHR 0x0D, CHR 0x20, CHR 0xA0])"

definition trim :: "string \<Rightarrow> string" where
  "trim s = rev (dropWhile is_ws (rev (dropWhile is_ws s)))"

text \<open>
  \<open>runCode\<close>, the host's side. The status text of a started run ends in the ellipsis
  U+2026 in the source, written here as three dots.
\<close>

definition runCode :: "state \<Rightarrow> state" where
  "runCode s =
     (let code = code_value s in
      if trim code = [] then setStatus ''idle'' ''Nothing to run'' s
      else (setStatus ''running'' ''Running...'' (clearOutput s))
             \<lparr>lastRunCode := code, srcdocs := srcdocs s @ [code]\<rparr>)"

subsection \<open>The script element of the sandbox document\<close>

text \<open>
  The sandbox document carries the code as \<open>JSON.stringify(code)\<close> inside a script
  element, and the HTML tokenizer reads that literal as script data: it ends the element
  at \<open></script\<close> followed by white space, \<open>/\<close> or \<open>>\<close>, and after \<open><!--\<close> followed by
  \<open><script\<close> it no longer ends it at the next \<open></script>\<close>. The states and the steps
  are those of the HTML standard for script data. The wrapper's own text before the
  literal holds neither \<open><\<close> nor \<open>-\<close>, so the literal is entered in the script data
  state; its text after the literal holds neither up to the end tag of the template,
  which ends the element unless the tokenizer is by then in a double-escaped state.
\<close>

datatype tstate =
    Data | DataLt | EndOpen | EndName string | EscStart | EscStartDash
  | Esc | EscDash | EscDashDash | EscLt | EscEndOpen | EscEndName string
  | DblStart string | Dbl | DblDash | DblDashDash | DblLt | DblEnd string
  | Ended

definition lower :: "char \<Rightarrow> char" where
  "lower c =
     (case map_of (zip ''ABCDEFGHIJKLMNOPQRSTUVWXYZ'' ''abcdefghijklmnopqrstuvwxyz'') c of
        None \<Rightarrow> c
      | Some l \<Rightarrow> l)"

definition alpha :: "char \<Rightarrow> bool" where
  "alpha c =
     (let n = (of_char c :: nat) in (65 \<le> n \<and> n \<le> 90) \<or> (97 \<le> n \<and> n \<le> 122))"

definition tag_end :: "char \<Rightarrow> bool" where
  "tag_end c = (c \<in> set [CHR 0x09, CHR 0x0A, CHR 0x0C, CHR 0x20, CHR ''/'', CHR ''>''])"

definition in_data :: "char \<Rightarrow> tstate" where
  "in_data c = (if c = CHR ''<'' then DataLt else Data)"

definition in_esc :: "char \<Rightarrow> tstate" where
  "in_esc c = (if c = CHR ''-'' then EscDash else if c = CHR ''<'' then EscLt else Esc)"

definition in_dbl :: "char \<Rightarrow> tstate" where
  "in_dbl c = (if c = CHR ''-'' then DblDash else if c = CHR ''<'' then DblLt else Dbl)"

fun step :: "tstate \<Rightarrow> char \<Rightarrow> tstate" where
  "step Data c = in_data c"
| "step DataLt c =
     (if c = CHR ''/'' then EndOpen else if c = CHR ''!'' then EscStart else in_data c)"
| "step EndOpen c = (if alpha c then EndName [lower c] else in_data c)"
| "step (EndName n) c =
     (if tag_end c then (if n = ''script'' then Ended else in_data c)
      else if alpha c then EndName (n @ [lower c]) else in_data c)"
| "step EscStart c = (if c = CHR ''-'' then EscStartDash else in_data c)"
| "step EscStartDash c = (if c = CHR ''-'' then EscDashDash else in_data c)"
| "step Esc c = in_esc c"
| "step EscDash c =
     (if c = CHR ''-'' then EscDashDash else if c = CHR ''<'' then EscLt else Esc)"
| "step EscDashDash c =
     (if c = CHR ''-'' then EscDashDash else if c = CHR ''<'' then EscLt
      else if c = CHR ''>'' then Data else Esc)"
| "step EscLt c =
     (if c = CHR ''/'' then EscEndOpen else if alpha c then DblStart [lower c] else in_esc c)"
| "step EscEndOpen c = (if alpha c then EscEndName [lower c] else in_esc c)"
| "step (EscEndName n) c =
     (if tag_end c then (if n = ''script'' then Ended else in_esc c)
      else if alpha c then EscEndName (n @ [lower c]) else in_esc c)"
| "step (DblStart n) c =
     (if tag_end c then (if n = ''script'' then Dbl else Esc)
      else if alpha c then DblStart (n @ [lower c]) else in_esc c)"
| "step Dbl c = in_dbl c"
| "step DblDash c =
     (if c = CHR ''-'' then DblDashDash else if c = CHR ''<'' then DblLt else Dbl)"
| "step DblDashDash c =
     (if c = CHR ''-'' then DblDashDash else if c = CHR ''<'' then DblLt
      else if c = CHR ''>'' then Data else Dbl)"
| "step DblLt c = (if c = CHR ''/'' then DblEnd [] else in_dbl c)"
| "step (DblEnd n) c =
     (if tag_end c then (if n = ''script'' then Esc else Dbl)
      else if alpha c then DblEnd (n @ [lower c]) else in_dbl c)"
| "step Ended c = Ended"

fun doubled :: "tstate \<Rightarrow> bool" where
  "doubled Dbl = True"
| "doubled DblDash = True"
| "doubled DblDashDash = True"
| "doubled DblLt = True"
| "doubled (DblEnd n) = True"
| "doubled t = False"

text \<open>
  What becomes of the script element. \<open>Whole\<close>: it holds the whole wrapper, which runs.
  \<open>Unclosed\<close>: the document ends inside it, and it never runs. \<open>Cut\<close>: it ends inside the
  literal; what is left of the wrapper does not compile, and the rest of the code is
  markup. \<open>inert\<close> says that this rest holds no \<open><\<close> and so no element that could run
  anything.
\<close>

datatype fate = Whole | Unclosed | Cut (inert: bool)

fun scan :: "tstate \<Rightarrow> string \<Rightarrow> fate" where
  "scan t [] = (if doubled t then Unclosed else Whole)"
| "scan t (c # cs) =
     (if step t c = Ended then Cut (CHR ''<'' \<notin> set cs) else scan (step t c) cs)"

definition script_fate :: "string \<Rightarrow> fate" where
  "script_fate code = scan Data (json_quote code)"

text \<open>
  The messages of the sandbox document that a trigger of \<open>runCode\<close> in state \<open>s\<close> creates:
  none when no document is created or its script never runs; \<open>None\<close> where the model
  does not say.
\<close>

definition run_messages :: "(string \<Rightarrow> behaviour) \<Rightarrow> state \<Rightarrow> message list option" where
  "run_messages engine s =
     (let code = code_value s in
      if trim code = [] then Some []
      else (case script_fate code of
              Whole \<Rightarrow> sandbox_messages (engine code)
            | Unclosed \<Rightarrow> Some []
            | Cut quiet \<Rightarrow> if quiet then Some [] else None))"

text \<open>
  The listener of \<open>message\<close> events. \<open>!ev.data.type\<close> holds for the empty string.
\<close>

definition on_message :: "message \<Rightarrow> state \<Rightarrow> state" where
  "on_message m s =
     (if mtype m = [] then s
      else if mtype m = ''done''
        then (if msg m = JStr ''ok'' then setStatus ''success'' ''Completed'' s
              else setStatus ''error'' ''Error'' s)
      else appendLine (mtype m) (msg m) s)"


text \<open>
  \<open>clearTimeout\<close> and \<open>setTimeout\<close> of the host window. Clearing \<open>null\<close> or an identifier
  that is not pending does nothing.
\<close>

definition clearTimeout :: "nat option \<Rightarrow> state \<Rightarrow> state" where
  "clearTimeout i s = s\<lparr>timers := filter (\<lambda>t. Some (fst t) \<noteq> i) (timers s)\<rparr>"

definition setTimeout :: "nat \<Rightarrow> state \<Rightarrow> nat \<times> state" where
  "setTimeout delay s =
     (next_id s,
      s\<lparr>timers := timers s @ [(next_id s, now s + delay)], next_id := Suc (next_id s)\<rparr>)"

text \<open>The callback of the debounce timer: \<open>if (els.code.value !== lastRunCode) runCode();\<close>\<close>

definition debounce_callback :: "state \<Rightarrow> state" where
  "debounce_callback s = (if code_value s \<noteq> lastRunCode s then runCode s else s)"

definition scheduleAutoRun :: "state \<Rightarrow> state" where
  "scheduleAutoRun s =
     (if \<not> autorun_checked s then s
      else (let s1 = clearTimeout (debounceId s) s;
                r = setTimeout DEBOUNCE_MS s1
            in (snd r)\<lparr>debounceId := Some (fst r)\<rparr>))"

text \<open>
  The first listener of \<open>input\<close> events on the editor:
  \<^verbatim>\<open>localStorage.setItem(STORAGE_KEY_CODE, els.code.value);
  scheduleAutoRun();\<close>
  When \<open>setItem\<close> throws, \<open>scheduleAutoRun\<close> is not reached.
\<close>

definition on_input :: "state \<Rightarrow> state" where
  "on_input s =
     (case setItem STORAGE_KEY_CODE (code_value s) s of
        Threw s' \<Rightarrow> s'
      | Completed s' \<Rightarrow> scheduleAutoRun s')"

text \<open>The store takes the text \<open>t\<close> as the source-text entry.\<close>

definition accepts :: "state \<Rightarrow> string \<Rightarrow> bool" where
  "accepts s t = quota_admits s ((localStorage s)(STORAGE_KEY_CODE \<mapsto> t))"

text \<open>The listener of the clear button (\<open>removeItem\<close> does not throw).\<close>

definition on_clear :: "state \<Rightarrow> state" where
  "on_clear s =
     (setStatus ''idle'' ''Cleared'' (clearOutput (s\<lparr>code_value := []\<rparr>)))
       \<lparr>localStorage := (localStorage s)(STORAGE_KEY_CODE := None)\<rparr>"

text \<open>The user changes the editor's text to \<open>t\<close>: the browser fires \<open>input\<close>.\<close>

definition edit :: "string \<Rightarrow> state \<Rightarrow> state" where
  "edit t s = on_input (s\<lparr>code_value := t\<rparr>)"

text \<open>
  \<open>d\<close> milliseconds pass with no other event: the timeouts due by then fire in the order
  they were set (all have the same delay). Every timeout of the page that is modelled
  is a debounce timer.
\<close>

fun fire :: "(nat \<times> nat) list \<Rightarrow> state \<Rightarrow> state" where
  "fire [] s = s"
| "fire (t # ts) s = fire ts (debounce_callback s)"

definition advance :: "nat \<Rightarrow> state \<Rightarrow> state" where
  "advance d s =
     fire (filter (\<lambda>t. snd t \<le> now s + d) (timers s))
          (s\<lparr>timers := filter (\<lambda>t. \<not> snd t \<le> now s + d) (timers s), now := now s + d\<rparr>)"


text \<open>
  The script's top level on a page \<open>p\<close> as the markup and the browser give it:
  \<open>debounceId = null\<close>, \<open>lastRunCode = ""\<close>, \<open>initState\<close>, and, unless that threw, the
  initial status. A reload after state \<open>s\<close> is a start on a fresh page with the store
  that \<open>s\<close> left behind.
\<close>

definition startup :: "state \<Rightarrow> completion" where
  "startup p =
     (case initState (p\<lparr>lastRunCode := [], debounceId := None\<rparr>) of
        Threw s \<Rightarrow> Threw s
      | Completed s \<Rightarrow> Completed (setStatus ''idle'' ''Idle'' s))"

definition reload :: "state \<Rightarrow> state \<Rightarrow> completion" where
  "reload p s = startup (p\<lparr>localStorage := localStorage s, quota_admits := quota_admits s\<rparr>)"

text \<open>
  The invariant of the debounce timer: every pending timeout is the one \<open>debounceId\<close>
  names.
\<close>

definition debounce_inv :: "state \<Rightarrow> bool" where
  "debounce_inv s = list_all (\<lambda>t. debounceId s = Some (fst t)) (timers s)"

text \<open>
  The states the page can be in: its script has started with no timeout pending; then
  the user edits, time passes, a run is triggered by the button or the keyboard, a
  message arrives, the clear button or the theme button is clicked, or the auto-run
  checkbox is changed.
\<close>

inductive reachable :: "state \<Rightarrow> bool" where
  start: "timers p = [] \<Longrightarrow> startup p = Completed s \<Longrightarrow> reachable s"
| edits: "reachable s \<Longrightarrow> reachable (edit t s)"
| waits: "reachable s \<Longrightarrow> reachable (advance d s)"
| runs: "reachable s \<Longrightarrow> reachable (runCode s)"
| receives: "reachable s \<Longrightarrow> reachable (on_message m s)"
| clears: "reachable s \<Longrightarrow> reachable (on_clear s)"
| themes: "reachable s \<Longrightarrow> reachable (after (setTheme mode s))"
| checks: "reachable s \<Longrightarrow> reachable (s\<lparr>autorun_checked := a\<rparr>)"


section \<open>Concrete pages, engines and scenarios\<close>

text \<open>
  A store with room for 5242880 characters, the keys and the values of the page's three
  entries counted together, and a text of that length.
\<close>

definition usage :: "(string \<rightharpoonup> string) \<Rightarrow> string \<Rightarrow> nat" where
  "usage m k = (case m k of None \<Rightarrow> 0 | Some v \<Rightarrow> length k + length v)"

definition five_mb :: "(string \<rightharpoonup> string) \<Rightarrow> bool" where
  "five_mb m =
     (usage m STORAGE_KEY_CODE + usage m STORAGE_KEY_THEME + usage m STORAGE_KEY_AC
        \<le> 5242880)"

definition big_text :: string where
  "big_text = replicate 5242880 (CHR ''x'')"

text \<open>A page with an empty editor and an empty store, as it is after its start.\<close>

definition blank_page :: state where
  "blank_page =
     \<lparr>code_value = [], autorun_checked = False, acToggle_checked = True, data_theme = None,
      output_log = [], status = (''idle'', ''Idle''), srcdocs = [], localStorage = Map.empty,
      quota_admits = five_mb,
      lastRunCode = [], debounceId = None, timers = [], next_id = 0, now = 0\<rparr>"

definition page_with :: "string \<Rightarrow> state" where
  "page_with t = blank_page\<lparr>code_value := t\<rparr>"

definition autorun_page :: state where
  "autorun_page = blank_page\<lparr>autorun_checked := True\<rparr>"

text \<open>With auto-run on the user types \<open>a\<close>, then unchecks auto-run.\<close>

definition unchecked_after_edit :: state where
  "unchecked_after_edit = (edit ''a'' autorun_page)\<lparr>autorun_checked := False\<rparr>"

text \<open>Source texts of the fragment.\<close>

definition hi_code :: string where
  "hi_code = ''console.log('hi'); return 2+2''"

definition two_logs_code :: string where
  "two_logs_code = ''console.log('<!--', 1); console.warn('b'); return 'r';''"

definition logged_code :: string where
  "logged_code = ''console.error('x'); throw 'boom';''"

definition null_code :: string where
  "null_code = ''throw null''"

text \<open>
  Source texts outside the fragment, and what an engine does with each. The call returns
  \<open>undefined\<close>; the timer's callback logs afterwards.
\<close>

definition late_code :: string where
  "late_code = ''setTimeout(() => console.log('late'), 0)''"

definition late_behaviour :: behaviour where
  "late_behaviour =
     \<lparr>calls = [], outcome = Returns JUndefined, later = [Console ''log'' [JStr ''late'']],
      intact = True\<rparr>"

text \<open>The call never returns.\<close>

definition spin_code :: string where
  "spin_code = ''while (true) {}''"

definition spin_behaviour :: behaviour where
  "spin_behaviour = \<lparr>calls = [], outcome = Diverges, later = [], intact = True\<rparr>"

text \<open>The code posts a \<open>done\<close> message of its own, then returns 1.\<close>

definition forge_code :: string where
  "forge_code = ''parent.postMessage({type:'done',msg:'error'},'*'); return 1''"

definition forge_behaviour :: behaviour where
  "forge_behaviour =
     \<lparr>calls = [Post \<lparr>mtype = ''done'', msg = JStr ''error''\<rparr>], outcome = Returns (JNum ''1''),
      later = [], intact = True\<rparr>"

text \<open>
  The error object of \<open>new Error('boom')\<close>, with the stack text of an engine that starts
  it with the error's name and message.
\<close>

definition boom_code :: string where
  "boom_code = ''throw new Error('boom')''"

definition boom_stack :: string where
  "boom_stack = ''Error: boom'' @ [CHR 0x0A] @ ''    at eval''"

definition boom_error :: jsval where
  "boom_error =
     JObj False (Inr (Some ''{}'')) (Inr ''Error: boom'') (Inr (JStr boom_stack))
       (Inr (JStr ''boom'')) True"

definition boom_throw :: behaviour where
  "boom_throw = \<lparr>calls = [], outcome = Throws boom_error, later = [], intact = True\<rparr>"

definition logged_throw :: behaviour where
  "logged_throw =
     \<lparr>calls = [Console ''error'' [JStr ''x'']], outcome = Throws (JStr ''boom''), later = [],
      intact = True\<rparr>"

text \<open>An object with no prototype has no properties, and \<open>String\<close> of it throws.\<close>

definition bare_code :: string where
  "bare_code = ''throw Object.create(null)''"

definition bare_object :: jsval where
  "bare_object =
     JObj False (Inr (Some ''{}''))
       (Inl (JStr ''TypeError: Cannot convert object to primitive value''))
       (Inr JUndefined) (Inr JUndefined) True"

definition bare_throw :: behaviour where
  "bare_throw = \<lparr>calls = [], outcome = Throws bare_object, later = [], intact = True\<rparr>"

text \<open>
  \<open>JSON.stringify\<close> throws a \<open>TypeError\<close> on the cycle; the structured clone would
  accept the object.
\<close>

definition circular_code :: string where
  "circular_code = ''const a = {}; a.self = a; return a''"

definition circular_error :: jsval where
  "circular_error =
     JObj False (Inr (Some ''{}'')) (Inr ''TypeError: Converting circular structure to JSON'')
       (Inr (JStr ''TypeError: Converting circular structure to JSON''))
       (Inr (JStr ''Converting circular structure to JSON'')) True"

definition circular_object :: jsval where
  "circular_object =
     JObj False (Inl circular_error) (Inr ''[object Object]'') (Inr JUndefined) (Inr JUndefined)
       True"

definition circular_return :: behaviour where
  "circular_return =
     \<lparr>calls = [], outcome = Returns circular_object, later = [], intact = True\<rparr>"

text \<open>
  Texts of the fragment whose string literal the HTML tokenizer takes for markup: after
  the first the script element is never closed, the second closes it inside the literal.
\<close>

definition unclosed_code :: string where
  "unclosed_code = ''return '<!--<script>';''"

definition cut_code :: string where
  "cut_code = ''return '</script>';''"

text \<open>
  An engine that follows the fragment and knows the other texts above; any further text
  does nothing and returns.
\<close>

definition demo_engine :: "string \<Rightarrow> behaviour" where
  "demo_engine code =
     (case js_run code of
        Some b \<Rightarrow> b
      | None \<Rightarrow>
          (if code = late_code then late_behaviour
           else if code = spin_code then spin_behaviour
           else if code = forge_code then forge_behaviour
           else if code = boom_code then boom_throw
           else if code = bare_code then bare_throw
           else if code = circular_code then circular_return
           else \<lparr>calls = [], outcome = Returns JUndefined, later = [], intact = True\<rparr>))"

section \<open>Evaluating the scenarios\<close>

lemmas js_defs =
  js_run_def opens_def parse_def args_of_def id_start_def is_digit_def literal_value_def
  max_safe_def js_plus_def finished_def digits.simps digit_def

lemmas fate_defs =
  script_fate_def json_quote_def json_escape_def alpha_def lower_def tag_end_def in_data_def
  in_esc_def in_dbl_def

lemma js_run_eval:
  "js_run hi_code =
     Some \<lparr>calls = [Console ''log'' [JStr ''hi'']], outcome = Returns (JNum ''4''), later = [],
           intact = True\<rparr>"
  "js_run two_logs_code =
     Some \<lparr>calls = [Console ''log'' [JStr ''<!--'', JNum ''1''], Console ''warn'' [JStr ''b'']],
           outcome = Returns (JStr ''r''), later = [], intact = True\<rparr>"
  "js_run logged_code = Some logged_throw"
  "js_run null_code = Some \<lparr>calls = [], outcome = Throws JNull, later = [], intact = True\<rparr>"
  "js_run unclosed_code =
     Some \<lparr>calls = [], outcome = Returns (JStr ''<!--<script>''), later = [], intact = True\<rparr>"
  "js_run cut_code =
     Some \<lparr>calls = [], outcome = Returns (JStr ''</script>''), later = [], intact = True\<rparr>"
  by (simp_all add: js_defs hi_code_def two_logs_code_def logged_code_def null_code_def
        unclosed_code_def cut_code_def logged_throw_def)

lemma js_run_outside:
  "js_run late_code = None" "js_run spin_code = None" "js_run forge_code = None"
  "js_run boom_code = None" "js_run bare_code = None" "js_run circular_code = None"
  by (simp_all add: js_defs late_code_def spin_code_def forge_code_def boom_code_def
        bare_code_def circular_code_def)

lemma demo_engine_eval:
  "demo_engine late_code = late_behaviour"
  "demo_engine spin_code = spin_behaviour"
  "demo_engine forge_code = forge_behaviour"
  "demo_engine boom_code = boom_throw"
  "demo_engine bare_code = bare_throw"
  "demo_engine circular_code = circular_return"
  by (simp_all add: demo_engine_def js_run_outside)
     (simp_all add: late_code_def spin_code_def forge_code_def boom_code_def bare_code_def
        circular_code_def)

lemma scenarios_not_blank:
  "trim hi_code \<noteq> []" "trim two_logs_code \<noteq> []" "trim late_code \<noteq> []"
  "trim spin_code \<noteq> []" "trim forge_code \<noteq> []" "trim boom_code \<noteq> []"
  "trim logged_code \<noteq> []" "trim null_code \<noteq> []" "trim bare_code \<noteq> []"
  "trim circular_code \<noteq> []" "trim unclosed_code \<noteq> []" "trim cut_code \<noteq> []"
  by (simp_all add: trim_def is_ws_def hi_code_def two_logs_code_def late_code_def
        spin_code_def forge_code_def boom_code_def logged_code_def null_code_def bare_code_def
        circular_code_def unclosed_code_def cut_code_def)

lemma scenarios_fate:
  "script_fate hi_code = Whole" "script_fate two_logs_code = Whole"
  "script_fate late_code = Whole" "script_fate spin_code = Whole"
  "script_fate forge_code = Whole" "script_fate boom_code = Whole"
  "script_fate logged_code = Whole" "script_fate null_code = Whole"
  "script_fate bare_code = Whole" "script_fate circular_code = Whole"
  "script_fate unclosed_code = Unclosed" "script_fate cut_code = Cut True"
  by (simp_all add: fate_defs hi_code_def two_logs_code_def late_code_def spin_code_def
        forge_code_def boom_code_def logged_code_def null_code_def bare_code_def
        circular_code_def unclosed_code_def cut_code_def)

lemma run_messages_started:
  "trim t \<noteq> [] \<Longrightarrow> script_fate t = Whole \<Longrightarrow>
     run_messages engine (page_with t) = sandbox_messages (engine t)"
  by (simp add: run_messages_def page_with_def)

lemmas scenario_runs =
  run_messages_started demo_engine_eval scenarios_not_blank scenarios_fate

lemma big_text_facts:
  "length big_text = 5242880" "big_text \<noteq> []" "trim big_text = big_text"
  by (simp_all add: big_text_def trim_def is_ws_def)


lemma usage_empty [simp]: "usage Map.empty k = 0"
  by (simp add: usage_def)

lemma five_mb_code [simp]:
  "five_mb (m(STORAGE_KEY_CODE \<mapsto> v)) =
     (15 + length v + usage m STORAGE_KEY_THEME + usage m STORAGE_KEY_AC \<le> 5242880)"
proof -
  have "usage (m(STORAGE_KEY_CODE \<mapsto> v)) STORAGE_KEY_CODE = 15 + length v"
    by (simp add: usage_def) (simp add: STORAGE_KEY_CODE_def)
  moreover have "usage (m(STORAGE_KEY_CODE \<mapsto> v)) STORAGE_KEY_THEME = usage m STORAGE_KEY_THEME"
    by (simp add: usage_def STORAGE_KEY_CODE_def STORAGE_KEY_THEME_def)
  moreover have "usage (m(STORAGE_KEY_CODE \<mapsto> v)) STORAGE_KEY_AC = usage m STORAGE_KEY_AC"
    by (simp add: usage_def STORAGE_KEY_CODE_def STORAGE_KEY_AC_def)
  ultimately show ?thesis
    by (simp add: five_mb_def)
qed

section \<open>Empty input\<close>

lemma trim_Nil_iff: "trim s = [] \<longleftrightarrow> list_all is_ws s"
proof
  assume "list_all is_ws s"
  then have "dropWhile is_ws s = []"
    by (simp add: list_all_iff)
  then show "trim s = []"
    unfolding trim_def by (simp only: rev.simps dropWhile.simps)
next
  assume "trim s = []"
  then have all: "\<forall>c \<in> set (dropWhile is_ws s). is_ws c"
    by (simp add: trim_def dropWhile_eq_Nil_conv)
  have "dropWhile is_ws s = []"
  proof (rule ccontr)
    assume ne: "dropWhile is_ws s \<noteq> []"
    then have "\<not> is_ws (hd (dropWhile is_ws s))"
      by (rule hd_dropWhile)
    moreover from ne have "hd (dropWhile is_ws s) \<in> set (dropWhile is_ws s)"
      by simp
    ultimately show False using all by blast
  qed
  then show "list_all is_ws s"
    by (simp add: dropWhile_eq_Nil_conv list_all_iff)
qed

text \<open>
  C4. When the editor's text is empty or consists of white space only, \<open>runCode\<close> changes
  nothing but the status, which becomes the idle status with the text "Nothing to run"
  (not the error status): no document is assigned to the sandbox, the output log is
  untouched, and the trigger produces no messages.
\<close>

theorem blank_input_is_idle:
  assumes "list_all is_ws (code_value s)"
  shows "runCode s = s\<lparr>status := (''idle'', ''Nothing to run'')\<rparr>
       \<and> srcdocs (runCode s) = srcdocs s
       \<and> output_log (runCode s) = output_log s
       \<and> run_messages engine s = Some []"
proof -
  from assms have "trim (code_value s) = []"
    by (simp add: trim_Nil_iff)
  then show ?thesis
    by (simp add: runCode_def run_messages_def setStatus_def)
qed

theorem blank_input_is_idle_witness:
  "list_all is_ws [CHR '' '', CHR 0x09, CHR 0x0A]
   \<and> runCode (blank_page\<lparr>code_value := [CHR '' '', CHR 0x09, CHR 0x0A]\<rparr>)
       = blank_page\<lparr>code_value := [CHR '' '', CHR 0x09, CHR 0x0A],
                     status := (''idle'', ''Nothing to run'')\<rparr>
   \<and> run_messages demo_engine (blank_page\<lparr>code_value := [CHR '' '', CHR 0x09, CHR 0x0A]\<rparr>)
       = Some []"
proof -
  have h: "list_all is_ws (code_value (blank_page\<lparr>code_value := [CHR '' '', CHR 0x09, CHR 0x0A]\<rparr>))"
    by (simp add: is_ws_def)
  show ?thesis
    using h blank_input_is_idle [OF h, of demo_engine] by simp
qed

section \<open>The message listener\<close>







section \<open>Persistence of the editor's text\<close>

lemma edit_accepted:
  "accepts s t \<Longrightarrow>
     edit t s = scheduleAutoRun (s\<lparr>code_value := t,
                                    localStorage := (localStorage s)(STORAGE_KEY_CODE \<mapsto> t)\<rparr>)"
  by (simp add: edit_def on_input_def setItem_def accepts_def)

lemma edit_refused: "\<not> accepts s t \<Longrightarrow> edit t s = s\<lparr>code_value := t\<rparr>"
  by (simp add: edit_def on_input_def setItem_def accepts_def)

lemma code_value_scheduleAutoRun: "code_value (scheduleAutoRun s) = code_value s"
  by (simp add: scheduleAutoRun_def clearTimeout_def setTimeout_def Let_def)

lemma localStorage_scheduleAutoRun: "localStorage (scheduleAutoRun s) = localStorage s"
  by (simp add: scheduleAutoRun_def clearTimeout_def setTimeout_def Let_def)

lemma code_value_restore_ac: "code_value (restore_ac s) = code_value s"
  by (simp add: restore_ac_def split: option.split)

lemma code_value_reload:
  "code_value (after (reload p s)) =
     (case localStorage s STORAGE_KEY_CODE of
        None \<Rightarrow> code_value p
      | Some saved \<Rightarrow> if saved \<noteq> [] then saved else code_value p)"
  by (simp add: reload_def startup_def initState_def setStatus_def setTheme_def setItem_def
        code_value_restore_ac Let_def
      split: option.split completion.split)

text \<open>
  C9, as the code has it. The editor holds the text of the edit. When the store accepts
  the text, the store's entry for the source text is exactly that text, and a reload
  puts it back into the editor when it is not empty (an empty entry is skipped by
  \<open>initState\<close>, and the editor then shows what the page's markup holds: the empty text
  again when the markup's editor is empty). When the store refuses the text,
  \<open>setItem\<close> throws and the entry stays what it was before the edit.
\<close>

theorem edit_persists:
  "code_value (edit t s) = t
   \<and> (accepts s t \<longrightarrow>
        localStorage (edit t s) STORAGE_KEY_CODE = Some t
        \<and> code_value (after (reload p (edit t s))) = (if t = [] then code_value p else t))
   \<and> (\<not> accepts s t \<longrightarrow>
        localStorage (edit t s) STORAGE_KEY_CODE = localStorage s STORAGE_KEY_CODE)"
proof (cases "accepts s t")
  case True
  then show ?thesis
    by (simp add: edit_accepted code_value_scheduleAutoRun localStorage_scheduleAutoRun
          code_value_reload)
next
  case False
  then show ?thesis
    by (simp add: edit_refused)
qed

theorem edit_persists_witness:
  "accepts blank_page ''ab''
   \<and> localStorage (edit ''ab'' blank_page) STORAGE_KEY_CODE = Some ''ab''
   \<and> code_value (after (reload blank_page (edit ''ab'' blank_page))) = ''ab''
   \<and> \<not> accepts (edit ''a'' blank_page) big_text
   \<and> localStorage (edit big_text (edit ''a'' blank_page)) STORAGE_KEY_CODE
       = localStorage (edit ''a'' blank_page) STORAGE_KEY_CODE"
proof -
  have a: "accepts blank_page ''ab''"
    by (simp add: accepts_def blank_page_def)
  have "accepts blank_page ''a''"
    by (simp add: accepts_def blank_page_def)
  then have "edit ''a'' blank_page =
      blank_page\<lparr>code_value := ''a'', localStorage := [STORAGE_KEY_CODE \<mapsto> ''a'']\<rparr>"
    by (simp add: edit_accepted scheduleAutoRun_def) (simp add: blank_page_def)
  then have r: "\<not> accepts (edit ''a'' blank_page) big_text"
    by (simp add: accepts_def blank_page_def big_text_facts)
  show ?thesis
    using a r edit_persists [of "''ab''" blank_page blank_page]
          edit_persists [of big_text "edit ''a'' blank_page" blank_page]
    by simp
qed

text \<open>
  C9 as stated fails when the store is full. The page starts with an empty editor and
  an empty store with room for 5242880 characters; the user types \<open>a\<close> and then
  pastes a text of 5242880 characters. The editor holds the long text, the entry is
  still \<open>a\<close>, and a reload shows \<open>a\<close>.
\<close>

theorem refused_text_not_persisted:
  "length big_text = 5242880
   \<and> code_value (edit big_text (edit ''a'' blank_page)) = big_text
   \<and> localStorage (edit big_text (edit ''a'' blank_page)) STORAGE_KEY_CODE = Some ''a''
   \<and> code_value (after (reload blank_page (edit big_text (edit ''a'' blank_page)))) = ''a''"
proof -
  have "accepts blank_page ''a''"
    by (simp add: accepts_def blank_page_def)
  then have e: "edit ''a'' blank_page =
      blank_page\<lparr>code_value := ''a'', localStorage := [STORAGE_KEY_CODE \<mapsto> ''a'']\<rparr>"
    by (simp add: edit_accepted scheduleAutoRun_def) (simp add: blank_page_def)
  then have "\<not> accepts (edit ''a'' blank_page) big_text"
    by (simp add: accepts_def blank_page_def big_text_facts)
  then have "edit big_text (edit ''a'' blank_page) = (edit ''a'' blank_page)\<lparr>code_value := big_text\<rparr>"
    by (rule edit_refused)
  then show ?thesis
    by (simp add: e code_value_reload big_text_facts)
qed

text \<open>The clear button removes the entry instead of storing the empty text.\<close>

lemma clear_removes_entry:
  "code_value (on_clear s) = [] \<and> localStorage (on_clear s) STORAGE_KEY_CODE = None
   \<and> code_value (after (reload p (on_clear s))) = code_value p"
  by (simp add: code_value_reload) (simp add: on_clear_def setStatus_def clearOutput_def)

section \<open>The scenario of a log and a result\<close>

text \<open>
  C5. For the text \<open>console.log('hi'); return 2+2\<close>, on every engine that runs this text
  as the fragment's semantics says (it is lexed, parsed and evaluated by \<open>js_run\<close>), the
  sandbox document posts exactly the messages \<open>{log, "hi"}\<close>, \<open>{result, "4"}\<close>,
  \<open>{done, "ok"}\<close>, in this order.
\<close>

theorem hi_scenario:
  assumes "code_value s = hi_code" and "js_run hi_code = Some (engine hi_code)"
  shows "run_messages engine s =
           Some [\<lparr>mtype = ''log'', msg = JStr ''hi''\<rparr>, \<lparr>mtype = ''result'', msg = JStr ''4''\<rparr>,
                 \<lparr>mtype = ''done'', msg = JStr ''ok''\<rparr>]"
proof -
  have "trim hi_code \<noteq> []" and "script_fate hi_code = Whole"
    by (rule scenarios_not_blank, rule scenarios_fate)
  moreover from assms(2) have "engine hi_code =
      \<lparr>calls = [Console ''log'' [JStr ''hi'']], outcome = Returns (JNum ''4''), later = [],
       intact = True\<rparr>"
    by (simp add: js_run_eval)
  moreover have "sandbox_messages
      \<lparr>calls = [Console ''log'' [JStr ''hi'']], outcome = Returns (JNum ''4''), later = [],
       intact = True\<rparr> =
      Some [\<lparr>mtype = ''log'', msg = JStr ''hi''\<rparr>, \<lparr>mtype = ''result'', msg = JStr ''4''\<rparr>,
            \<lparr>mtype = ''done'', msg = JStr ''ok''\<rparr>]"
    by (simp add: sandbox_messages_def wrapper_messages_def emitted_def console_call_def
          console_shim_def serialise_def on_return_def result_payload_def send_def)
  ultimately show ?thesis
    using assms(1) by (simp add: run_messages_def)
qed

theorem hi_scenario_witness:
  "run_messages demo_engine (page_with hi_code) =
     Some [\<lparr>mtype = ''log'', msg = JStr ''hi''\<rparr>, \<lparr>mtype = ''result'', msg = JStr ''4''\<rparr>,
           \<lparr>mtype = ''done'', msg = JStr ''ok''\<rparr>]"
proof -
  have "js_run hi_code = Some (demo_engine hi_code)"
    by (simp add: demo_engine_def js_run_eval)
  then show ?thesis
    using hi_scenario [of "page_with hi_code" demo_engine]
    by (simp add: page_with_def)
qed

section \<open>The debounce timer\<close>

lemma clear_debounce_timer:
  "debounce_inv s \<Longrightarrow> filter (\<lambda>t. Some (fst t) \<noteq> debounceId s) (timers s) = []"
  by (auto simp: debounce_inv_def list_all_iff filter_empty_conv)

text \<open>
  An edit that the store accepts, with auto-run on: the pending timer is replaced by a
  new one.
\<close>

lemma edit_schedules:
  assumes "autorun_checked s" and "debounce_inv s" and "accepts s t"
  shows "edit t s =
           s\<lparr>code_value := t,
             localStorage := (localStorage s)(STORAGE_KEY_CODE \<mapsto> t),
             timers := [(next_id s, now s + DEBOUNCE_MS)],
             next_id := Suc (next_id s),
             debounceId := Some (next_id s)\<rparr>"
proof -
  let ?s0 = "s\<lparr>code_value := t, localStorage := (localStorage s)(STORAGE_KEY_CODE \<mapsto> t)\<rparr>"
  have "debounce_inv ?s0"
    using assms(2) by (simp add: debounce_inv_def)
  then have "filter (\<lambda>x. Some (fst x) \<noteq> debounceId ?s0) (timers ?s0) = []"
    by (rule clear_debounce_timer)
  then have "filter (\<lambda>x. Some (fst x) \<noteq> debounceId s) (timers s) = []"
    by simp
  then show ?thesis
    using assms(1,3)
    by (simp add: edit_accepted scheduleAutoRun_def clearTimeout_def setTimeout_def Let_def)
qed

text \<open>An edit that the store accepts, with auto-run off: \<open>scheduleAutoRun\<close> returns at once.\<close>

lemma edit_manual:
  "\<not> autorun_checked s \<Longrightarrow> accepts s t \<Longrightarrow>
     edit t s = s\<lparr>code_value := t, localStorage := (localStorage s)(STORAGE_KEY_CODE \<mapsto> t)\<rparr>"
  by (simp add: edit_accepted scheduleAutoRun_def)


lemma advance_fires:
  assumes "timers s = [(i, due)]" and "due \<le> now s + d"
  shows "advance d s = debounce_callback (s\<lparr>timers := [], now := now s + d\<rparr>)"
  using assms by (simp add: advance_def)




subsection \<open>The invariant holds on every page\<close>

lemma fire_keeps_timers:
  "timers (fire ts s) = timers s \<and> debounceId (fire ts s) = debounceId s"
  by (induction ts arbitrary: s)
     (simp_all add: debounce_callback_def runCode_def setStatus_def clearOutput_def Let_def)

lemma timers_restore_ac:
  "timers (restore_ac s) = timers s \<and> debounceId (restore_ac s) = debounceId s"
  by (simp add: restore_ac_def split: option.split)

lemma debounce_inv_startup:
  "timers p = [] \<Longrightarrow> startup p = Completed s \<Longrightarrow> debounce_inv s"
  by (auto simp add: debounce_inv_def startup_def initState_def setStatus_def setTheme_def
        setItem_def timers_restore_ac Let_def
      split: option.splits completion.splits if_splits)

lemma debounce_inv_edit: "debounce_inv s \<Longrightarrow> debounce_inv (edit t s)"
  by (cases "accepts s t"; cases "autorun_checked s")
     (simp_all add: edit_schedules edit_manual edit_refused debounce_inv_def)

lemma debounce_inv_advance: "debounce_inv s \<Longrightarrow> debounce_inv (advance d s)"
  by (simp add: debounce_inv_def advance_def fire_keeps_timers list_all_iff)

lemma debounce_inv_runCode: "debounce_inv s \<Longrightarrow> debounce_inv (runCode s)"
  by (simp add: debounce_inv_def runCode_def setStatus_def clearOutput_def Let_def)

lemma debounce_inv_on_message: "debounce_inv s \<Longrightarrow> debounce_inv (on_message m s)"
  by (simp add: debounce_inv_def on_message_def setStatus_def appendLine_def)

lemma debounce_inv_on_clear: "debounce_inv s \<Longrightarrow> debounce_inv (on_clear s)"
  by (simp add: debounce_inv_def on_clear_def setStatus_def clearOutput_def)

lemma debounce_inv_autorun: "debounce_inv s \<Longrightarrow> debounce_inv (s\<lparr>autorun_checked := a\<rparr>)"
  by (simp add: debounce_inv_def)

lemma debounce_inv_setTheme: "debounce_inv s \<Longrightarrow> debounce_inv (after (setTheme mode s))"
  by (simp add: debounce_inv_def setTheme_def setItem_def)

lemma reachable_debounce_inv: "reachable s \<Longrightarrow> debounce_inv s"
  by (induction rule: reachable.induct)
     (simp_all add: debounce_inv_startup debounce_inv_edit debounce_inv_advance
        debounce_inv_runCode debounce_inv_on_message debounce_inv_on_clear
        debounce_inv_setTheme debounce_inv_autorun)

lemma startup_blank_page: "startup blank_page = Completed blank_page"
  by (simp add: startup_def initState_def setStatus_def restore_ac_def blank_page_def)

lemma reachable_blank_page: "reachable blank_page"
  using reachable.start [of blank_page blank_page]
  by (simp add: startup_blank_page) (simp add: blank_page_def)

lemma reachable_autorun_page: "reachable autorun_page"
  unfolding autorun_page_def by (rule reachable.checks) (rule reachable_blank_page)

subsection \<open>A burst of keystrokes\<close>




subsection \<open>Keystrokes that the store refuses\<close>

lemmas host_defs =
  edit_def on_input_def setItem_def scheduleAutoRun_def clearTimeout_def setTimeout_def
  advance_def debounce_callback_def runCode_def setStatus_def clearOutput_def trim_def
  is_ws_def blank_page_def DEBOUNCE_MS_def Let_def

text \<open>The state after the first keystroke \<open>a\<close> on the page with auto-run on.\<close>

lemma first_keystroke:
  "edit ''a'' autorun_page =
     blank_page\<lparr>autorun_checked := True, code_value := ''a'',
                localStorage := [STORAGE_KEY_CODE \<mapsto> ''a''],
                timers := [(0, 600)], next_id := 1, debounceId := Some 0\<rparr>"
  by (simp add: autorun_page_def host_defs)

lemma half_window:
  "advance 500 (edit ''a'' autorun_page) =
     blank_page\<lparr>autorun_checked := True, code_value := ''a'',
                localStorage := [STORAGE_KEY_CODE \<mapsto> ''a''],
                timers := [(0, 600)], next_id := 1, debounceId := Some 0, now := 500\<rparr>"
  by (simp add: autorun_page_def host_defs)

lemma pasted_text_refused: "\<not> accepts (advance 500 (edit ''a'' autorun_page)) big_text"
  by (simp add: accepts_def half_window) (simp add: blank_page_def big_text_facts)



subsection \<open>When the timer is set and what its firing does\<close>

text \<open>
  C3 as stated fails. Auto-run is on, the user types \<open>a\<close> and then unchecks auto-run.
  A further edit 500 ms later does not touch the timer, which stays due at 600 ms; and
  when it fires, the callback compares the text with the snapshot only: a sandbox
  document is created although auto-run is off at that moment. Nor does every
  text-change reset the timer while auto-run is on: an edit whose text the store
  refuses leaves the timer of the first keystroke due at 600 ms.
\<close>

theorem timer_fires_without_autorun:
  "\<not> autorun_checked unchecked_after_edit
   \<and> srcdocs unchecked_after_edit = []
   \<and> srcdocs (advance 600 unchecked_after_edit) = [''a'']
   \<and> timers (advance 500 unchecked_after_edit) = [(0, 600)]
   \<and> timers (edit ''ab'' (advance 500 unchecked_after_edit)) = [(0, 600)]
   \<and> autorun_checked (advance 500 (edit ''a'' autorun_page))
   \<and> timers (edit big_text (advance 500 (edit ''a'' autorun_page))) = [(0, 600)]"
proof -
  have "edit big_text (advance 500 (edit ''a'' autorun_page))
      = (advance 500 (edit ''a'' autorun_page))\<lparr>code_value := big_text\<rparr>"
    by (rule edit_refused) (rule pasted_text_refused)
  then have "autorun_checked (advance 500 (edit ''a'' autorun_page))
      \<and> timers (edit big_text (advance 500 (edit ''a'' autorun_page))) = [(0, 600)]"
    by (simp only:) (simp add: half_window)
  moreover have "\<not> autorun_checked unchecked_after_edit
   \<and> srcdocs unchecked_after_edit = []
   \<and> srcdocs (advance 600 unchecked_after_edit) = [''a'']
   \<and> timers (advance 500 unchecked_after_edit) = [(0, 600)]
   \<and> timers (edit ''ab'' (advance 500 unchecked_after_edit)) = [(0, 600)]"
    by (simp add: unchecked_after_edit_def autorun_page_def host_defs)
  ultimately show ?thesis
    by simp
qed

text \<open>
  C3, as the code has it, in every state the page can reach. An edit replaces the
  pending timer by one due \<open>DEBOUNCE_MS\<close> later when the store accepts the text and
  auto-run is checked at the edit, and leaves the timers alone otherwise. When the
  pending timer fires, \<open>runCode\<close> is called if and only if the editor's text differs
  from the last-run snapshot; the auto-run checkbox is not looked at then.
\<close>

theorem debounce_policy:
  assumes "debounce_inv s"
  shows "timers (edit t s) =
           (if accepts s t \<and> autorun_checked s then [(next_id s, now s + DEBOUNCE_MS)]
            else timers s)
       \<and> (timers s = [(i, due)] \<and> due \<le> now s + d \<longrightarrow>
            advance d s =
              (if code_value s \<noteq> lastRunCode s
               then runCode (s\<lparr>timers := [], now := now s + d\<rparr>)
               else s\<lparr>timers := [], now := now s + d\<rparr>))"
proof (intro conjI impI)
  show "timers (edit t s) =
           (if accepts s t \<and> autorun_checked s then [(next_id s, now s + DEBOUNCE_MS)]
            else timers s)"
    using assms
    by (cases "accepts s t"; cases "autorun_checked s")
       (simp_all add: edit_schedules edit_manual edit_refused)
next
  assume "timers s = [(i, due)] \<and> due \<le> now s + d"
  then have "advance d s = debounce_callback (s\<lparr>timers := [], now := now s + d\<rparr>)"
    by (simp add: advance_fires)
  then show "advance d s =
              (if code_value s \<noteq> lastRunCode s
               then runCode (s\<lparr>timers := [], now := now s + d\<rparr>)
               else s\<lparr>timers := [], now := now s + d\<rparr>)"
    by (simp add: debounce_callback_def)
qed

theorem debounce_policy_witness:
  "timers (edit ''ab'' unchecked_after_edit) = [(0, 600)]
   \<and> timers (edit ''ab'' (edit ''a'' autorun_page)) = [(1, 600)]
   \<and> timers (edit big_text (edit ''a'' autorun_page)) = [(0, 600)]
   \<and> srcdocs (advance 600 unchecked_after_edit) = [''a'']"
proof -
  have r: "reachable (edit ''a'' autorun_page)"
    by (rule reachable.edits) (rule reachable_autorun_page)
  then have i2: "debounce_inv (edit ''a'' autorun_page)"
    by (rule reachable_debounce_inv)
  from r have "reachable unchecked_after_edit"
    unfolding unchecked_after_edit_def by (rule reachable.checks)
  then have i1: "debounce_inv unchecked_after_edit"
    by (rule reachable_debounce_inv)
  have t: "timers unchecked_after_edit = [(0, 600)] \<and> 600 \<le> now unchecked_after_edit + 600"
    by (simp add: unchecked_after_edit_def autorun_page_def host_defs)
  have n: "\<not> accepts (edit ''a'' autorun_page) big_text"
    by (simp add: accepts_def first_keystroke) (simp add: blank_page_def big_text_facts)
  have y: "accepts (edit ''a'' autorun_page) ''ab''"
    by (simp add: accepts_def first_keystroke) (simp add: blank_page_def)
  have f: "timers (edit ''a'' autorun_page) = [(0, 600)]"
      "next_id (edit ''a'' autorun_page) = 1" "now (edit ''a'' autorun_page) = 0"
    by (simp_all add: first_keystroke) (simp_all add: blank_page_def)
  show ?thesis
    using debounce_policy [OF i1, of "''ab''" 0 600 600]
          debounce_policy [OF i2, of "''ab''" 0 600 600]
          debounce_policy [OF i2, of big_text 0 600 600] t n y f
    by (simp add: DEBOUNCE_MS_def)
       (simp add: unchecked_after_edit_def autorun_page_def host_defs)
qed

section \<open>The messages of a run\<close>

lemma demo_engine_js:
  "demo_engine hi_code =
     \<lparr>calls = [Console ''log'' [JStr ''hi'']], outcome = Returns (JNum ''4''), later = [],
      intact = True\<rparr>"
  "demo_engine two_logs_code =
     \<lparr>calls = [Console ''log'' [JStr ''<!--'', JNum ''1''], Console ''warn'' [JStr ''b'']],
      outcome = Returns (JStr ''r''), later = [], intact = True\<rparr>"
  "demo_engine logged_code = logged_throw"
  "demo_engine null_code = \<lparr>calls = [], outcome = Throws JNull, later = [], intact = True\<rparr>"
  by (simp_all add: demo_engine_def js_run_eval)

lemmas wrapper_defs =
  sandbox_messages_def wrapper_messages_def emitted_def console_call_def console_shim_def
  serialise_def on_return_def result_payload_def on_catch_def or_else_def String_val_def
  send_def

lemma console_shim_type: "m \<in> set (console_shim k args) \<Longrightarrow> mtype m = k"
  by (auto simp: console_shim_def send_def split: sum.splits)

lemma console_call_not_done: "m \<in> set (console_call c) \<Longrightarrow> mtype m \<noteq> ''done''"
  by (auto simp: console_call_def dest!: console_shim_type split: if_splits)

lemma action_messages_no_done:
  "\<not> posts_done a \<Longrightarrow> filter (\<lambda>m. mtype m = ''done'') (action_messages a) = []"
  by (cases a) (auto simp: filter_empty_conv dest: console_call_not_done)

lemma emitted_no_done:
  "\<not> list_ex posts_done as \<Longrightarrow>
     filter (\<lambda>m. mtype m = ''done'') (concat (map action_messages as)) = []"
  by (induction as) (simp_all add: action_messages_no_done)

lemma on_catch_reportable:
  assumes "reportable e"
  shows "\<exists>v. diagnostic e = Inr v \<and> cloneable v
            \<and> on_catch e = [\<lparr>mtype = ''error'', msg = v\<rparr>,
                             \<lparr>mtype = ''done'', msg = JStr ''error''\<rparr>]"
  using assms by (auto simp: reportable_def on_catch_def send_def split: sum.splits)

text \<open>What the wrapper posts after the code's own actions, when its last \<open>send\<close> is reached.\<close>

lemma completes_closing:
  assumes "completes b"
  shows "\<exists>fin. wrapper_messages b = concat (map action_messages (calls b)) @ fin
           \<and> (fin = [\<lparr>mtype = ''done'', msg = JStr ''ok''\<rparr>]
              \<or> (\<exists>v. fin = [\<lparr>mtype = ''result'', msg = v\<rparr>,
                             \<lparr>mtype = ''done'', msg = JStr ''ok''\<rparr>])
              \<or> (\<exists>v. fin = [\<lparr>mtype = ''error'', msg = v\<rparr>,
                             \<lparr>mtype = ''done'', msg = JStr ''error''\<rparr>]))"
proof (cases "outcome b")
  case (Returns r)
  show ?thesis
  proof (cases "r = JUndefined")
    case True
    with Returns show ?thesis
      by (simp add: wrapper_messages_def emitted_def on_return_def send_def)
  next
    case False
    show ?thesis
    proof (cases "result_payload r")
      case (Inl e)
      with Returns False assms have "reportable e"
        by (simp add: completes_def caught_def)
      then obtain v where "on_catch e = [\<lparr>mtype = ''error'', msg = v\<rparr>,
                                         \<lparr>mtype = ''done'', msg = JStr ''error''\<rparr>]"
        using on_catch_reportable by blast
      with Returns False Inl show ?thesis
        by (simp add: wrapper_messages_def emitted_def on_return_def)
    next
      case (Inr t)
      with Returns False show ?thesis
        by (simp add: wrapper_messages_def emitted_def on_return_def send_def)
    qed
  qed
next
  case (Throws e)
  with assms have "reportable e"
    by (simp add: completes_def caught_def)
  then obtain v where "on_catch e = [\<lparr>mtype = ''error'', msg = v\<rparr>,
                                     \<lparr>mtype = ''done'', msg = JStr ''error''\<rparr>]"
    using on_catch_reportable by blast
  with Throws show ?thesis
    by (simp add: wrapper_messages_def emitted_def)
next
  case Diverges
  with assms show ?thesis
    by (simp add: completes_def)
qed

text \<open>
  C1 as stated fails, in each of these runs. A text of one space is not empty, yet
  \<open>runCode\<close> returns before it creates a sandbox document: no message, hence no \<open>done\<close>,
  is ever posted. A code that sets a timer whose callback logs has its \<open>log\<close> message
  posted after its \<open>done\<close>. A code that loops for ever posts no \<open>done\<close>. A code that
  calls \<open>parent.postMessage\<close> itself with a \<open>done\<close> message makes the run post two
  \<open>done\<close> messages, the first before the \<open>result\<close>. A text whose string literal opens an
  HTML comment and a script tag leaves the script element unclosed, and a text whose
  literal holds the script's end tag cuts the script in the middle of a statement: in
  both the script never runs. A code that throws an object with no string conversion
  makes the catch branch throw before it posts anything.
\<close>

theorem run_without_final_done:
  "run_messages demo_engine (page_with '' '') = Some []
   \<and> run_messages demo_engine (page_with late_code)
       = Some [\<lparr>mtype = ''done'', msg = JStr ''ok''\<rparr>, \<lparr>mtype = ''log'', msg = JStr ''late''\<rparr>]
   \<and> run_messages demo_engine (page_with spin_code) = Some []
   \<and> run_messages demo_engine (page_with forge_code)
       = Some [\<lparr>mtype = ''done'', msg = JStr ''error''\<rparr>, \<lparr>mtype = ''result'', msg = JStr ''1''\<rparr>,
               \<lparr>mtype = ''done'', msg = JStr ''ok''\<rparr>]
   \<and> run_messages demo_engine (page_with unclosed_code) = Some []
   \<and> run_messages demo_engine (page_with cut_code) = Some []
   \<and> run_messages demo_engine (page_with bare_code) = Some []"
proof -
  have "run_messages demo_engine (page_with '' '') = Some []"
    by (simp add: run_messages_def page_with_def trim_def is_ws_def)
  moreover have "sandbox_messages late_behaviour
      = Some [\<lparr>mtype = ''done'', msg = JStr ''ok''\<rparr>, \<lparr>mtype = ''log'', msg = JStr ''late''\<rparr>]"
    by (simp add: late_behaviour_def wrapper_defs)
  moreover have "sandbox_messages spin_behaviour = Some []"
    by (simp add: spin_behaviour_def wrapper_defs)
  moreover have "sandbox_messages forge_behaviour
      = Some [\<lparr>mtype = ''done'', msg = JStr ''error''\<rparr>, \<lparr>mtype = ''result'', msg = JStr ''1''\<rparr>,
              \<lparr>mtype = ''done'', msg = JStr ''ok''\<rparr>]"
    by (simp add: forge_behaviour_def wrapper_defs)
  moreover have "sandbox_messages bare_throw = Some []"
    by (simp add: bare_throw_def bare_object_def wrapper_defs)
  moreover have "run_messages demo_engine (page_with unclosed_code) = Some []"
      "run_messages demo_engine (page_with cut_code) = Some []"
    by (simp_all add: run_messages_def page_with_def scenarios_not_blank scenarios_fate)
  ultimately show ?thesis
    by (simp add: scenario_runs)
qed

text \<open>
  C1, as the code has it. Let the text be non-blank and such that the HTML tokenizer
  takes the whole wrapper for the script. Let the code leave \<open>parent\<close>, \<open>JSON\<close> and
  \<open>String\<close> as they were, let its call end (by return or throw) with any failure one
  whose diagnostic can be computed and cloned, let it post no \<open>done\<close> message itself, and
  let its callbacks post nothing afterwards. Then the document posts the messages of
  the code's actions, in the order of the actions, followed by a closing: \<open>done\<close> alone,
  or one \<open>result\<close> message and \<open>done\<close> with \<open>"ok"\<close>, or one \<open>error\<close> message and \<open>done\<close>
  with \<open>"error"\<close>. It posts exactly one \<open>done\<close> message, and that is the last one. A call
  of one of the four replaced console methods whose arguments can be serialised posts
  exactly one message, of the method's name, with the serialised arguments joined by
  spaces; a call of \<open>parent.postMessage\<close> posts its data.
\<close>

theorem run_ends_in_done:
  assumes "trim (code_value s) \<noteq> []" and "script_fate (code_value s) = Whole"
      and "intact (engine (code_value s))" and "completes (engine (code_value s))"
      and "\<not> list_ex posts_done (calls (engine (code_value s)))"
      and "concat (map action_messages (later (engine (code_value s)))) = []"
  shows "(\<exists>fin. run_messages engine s
                  = Some (concat (map action_messages (calls (engine (code_value s)))) @ fin)
              \<and> (fin = [\<lparr>mtype = ''done'', msg = JStr ''ok''\<rparr>]
                 \<or> (\<exists>v. fin = [\<lparr>mtype = ''result'', msg = v\<rparr>,
                                \<lparr>mtype = ''done'', msg = JStr ''ok''\<rparr>])
                 \<or> (\<exists>v. fin = [\<lparr>mtype = ''error'', msg = v\<rparr>,
                                \<lparr>mtype = ''done'', msg = JStr ''error''\<rparr>]))
              \<and> length (filter (\<lambda>m. mtype m = ''done'')
                   (concat (map action_messages (calls (engine (code_value s)))) @ fin)) = 1
              \<and> mtype (last (concat (map action_messages (calls (engine (code_value s))))
                               @ fin)) = ''done'')
       \<and> (\<forall>k args ts.
            k \<in> set [''log'', ''info'', ''warn'', ''error''] \<and> map_serialise args = Inr ts
            \<longrightarrow> action_messages (Console k args) = [\<lparr>mtype = k, msg = JStr (join '' '' ts)\<rparr>])
       \<and> (\<forall>m. action_messages (Post m) = [m])"
proof (intro conjI allI impI)
  let ?b = "engine (code_value s)"
  let ?pre = "concat (map action_messages (calls ?b))"
  from assms(4) obtain fin
    where w: "wrapper_messages ?b = ?pre @ fin"
      and c: "fin = [\<lparr>mtype = ''done'', msg = JStr ''ok''\<rparr>]
              \<or> (\<exists>v. fin = [\<lparr>mtype = ''result'', msg = v\<rparr>,
                             \<lparr>mtype = ''done'', msg = JStr ''ok''\<rparr>])
              \<or> (\<exists>v. fin = [\<lparr>mtype = ''error'', msg = v\<rparr>,
                             \<lparr>mtype = ''done'', msg = JStr ''error''\<rparr>])"
    using completes_closing by blast
  from assms(3,6) have "sandbox_messages ?b = Some (wrapper_messages ?b)"
    by (cases "outcome ?b") (simp_all add: sandbox_messages_def emitted_def)
  with assms(1,2) w have r: "run_messages engine s = Some (?pre @ fin)"
    by (simp add: run_messages_def Let_def)
  from c have one: "length (filter (\<lambda>m. mtype m = ''done'') fin) = 1"
    and lst: "mtype (last fin) = ''done''" and ne: "fin \<noteq> []"
    by auto
  from ne lst have l: "mtype (last (?pre @ fin)) = ''done''"
    by simp
  from one have n: "length (filter (\<lambda>m. mtype m = ''done'') (?pre @ fin)) = 1"
    by (simp add: emitted_no_done [OF assms(5)])
  show "\<exists>fin. run_messages engine s = Some (?pre @ fin)
              \<and> (fin = [\<lparr>mtype = ''done'', msg = JStr ''ok''\<rparr>]
                 \<or> (\<exists>v. fin = [\<lparr>mtype = ''result'', msg = v\<rparr>,
                                \<lparr>mtype = ''done'', msg = JStr ''ok''\<rparr>])
                 \<or> (\<exists>v. fin = [\<lparr>mtype = ''error'', msg = v\<rparr>,
                                \<lparr>mtype = ''done'', msg = JStr ''error''\<rparr>]))
              \<and> length (filter (\<lambda>m. mtype m = ''done'') (?pre @ fin)) = 1
              \<and> mtype (last (?pre @ fin)) = ''done''"
    using r c n l by blast
next
  fix k args ts
  assume "k \<in> set [''log'', ''info'', ''warn'', ''error''] \<and> map_serialise args = Inr ts"
  then show "action_messages (Console k args) = [\<lparr>mtype = k, msg = JStr (join '' '' ts)\<rparr>]"
    by (simp add: console_call_def console_shim_def send_def)
next
  fix m
  show "action_messages (Post m) = [m]"
    by simp
qed

text \<open>
  An instance: two console calls, the first with \<open><!--\<close> in a string literal, which puts
  the tokenizer into an escaped state and changes nothing, and a returned string.
\<close>

theorem run_ends_in_done_witness:
  "run_messages demo_engine (page_with two_logs_code)
     = Some [\<lparr>mtype = ''log'', msg = JStr ''<!-- 1''\<rparr>, \<lparr>mtype = ''warn'', msg = JStr ''b''\<rparr>,
             \<lparr>mtype = ''result'', msg = JStr ''r''\<rparr>, \<lparr>mtype = ''done'', msg = JStr ''ok''\<rparr>]"
proof -
  let ?b = "\<lparr>calls = [Console ''log'' [JStr ''<!--'', JNum ''1''], Console ''warn'' [JStr ''b'']],
             outcome = Returns (JStr ''r''), later = [], intact = True\<rparr>"
  have v: "code_value (page_with two_logs_code) = two_logs_code"
    by (simp add: page_with_def)
  have e: "demo_engine (code_value (page_with two_logs_code)) = ?b"
    by (simp add: v demo_engine_js)
  have t: "trim (code_value (page_with two_logs_code)) \<noteq> []"
    by (simp add: v scenarios_not_blank)
  have f: "script_fate (code_value (page_with two_logs_code)) = Whole"
    by (simp add: v scenarios_fate)
  have i: "intact (demo_engine (code_value (page_with two_logs_code)))"
    by (simp add: e)
  have c: "completes (demo_engine (code_value (page_with two_logs_code)))"
    by (simp add: e completes_def caught_def result_payload_def)
  have p: "\<not> list_ex posts_done (calls (demo_engine (code_value (page_with two_logs_code))))"
    by (simp add: e)
  have l: "concat (map action_messages
             (later (demo_engine (code_value (page_with two_logs_code))))) = []"
    by (simp add: e)
  have m: "concat (map action_messages (calls ?b))
      = [\<lparr>mtype = ''log'', msg = JStr ''<!-- 1''\<rparr>, \<lparr>mtype = ''warn'', msg = JStr ''b''\<rparr>]"
    by (simp add: console_call_def console_shim_def serialise_def send_def)
  have "\<exists>fin. run_messages demo_engine (page_with two_logs_code)
                 = Some (concat (map action_messages (calls ?b)) @ fin)
             \<and> (fin = [\<lparr>mtype = ''done'', msg = JStr ''ok''\<rparr>]
                \<or> (\<exists>v. fin = [\<lparr>mtype = ''result'', msg = v\<rparr>,
                               \<lparr>mtype = ''done'', msg = JStr ''ok''\<rparr>])
                \<or> (\<exists>v. fin = [\<lparr>mtype = ''error'', msg = v\<rparr>,
                               \<lparr>mtype = ''done'', msg = JStr ''error''\<rparr>]))"
    using run_ends_in_done [of "page_with two_logs_code" demo_engine, OF t f i c p l]
    by (simp only: e) blast
  moreover have "run_messages demo_engine (page_with two_logs_code)
      = Some [\<lparr>mtype = ''log'', msg = JStr ''<!-- 1''\<rparr>, \<lparr>mtype = ''warn'', msg = JStr ''b''\<rparr>,
              \<lparr>mtype = ''result'', msg = JStr ''r''\<rparr>, \<lparr>mtype = ''done'', msg = JStr ''ok''\<rparr>]"
    by (simp add: scenario_runs demo_engine_js wrapper_defs)
  ultimately show ?thesis
    by simp
qed

section \<open>A run that throws\<close>






section \<open>Values that cannot be serialised\<close>

text \<open>
  A console argument of type \<open>object\<close> never makes the call fail: when
  \<open>JSON.stringify\<close> throws, its place in the message is taken by \<open>[object]\<close>.
\<close>

lemma serialise_fallback:
  "typeof a = ''object'' \<Longrightarrow> JSON_stringify a = Inl e \<Longrightarrow> serialise a = Inr (Some ''[object]'')"
  by (simp add: serialise_def)

text \<open>The result has no such fallback: the exception reaches the catch branch.\<close>

lemma on_return_unserialisable:
  "r \<noteq> JUndefined \<Longrightarrow> typeof r = ''object'' \<Longrightarrow> JSON_stringify r = Inl e \<Longrightarrow>
     on_return r = on_catch e"
  by (simp add: on_return_def result_payload_def)

text \<open>
  C2 at \<open>const a = {}; a.self = a; return a\<close>: the run posts an \<open>error\<close> message with the
  \<open>TypeError\<close>'s stack and \<open>done\<close> with \<open>"error"\<close>, not a \<open>result\<close> message with the
  placeholder and \<open>done\<close> with \<open>"ok"\<close>; the same object as a console argument is logged
  as \<open>[object]\<close>.
\<close>

theorem unserialisable_result_is_error:
  "run_messages demo_engine (page_with circular_code)
     = Some [send ''error'' (JStr ''TypeError: Converting circular structure to JSON''),
             send ''done'' (JStr ''error'')]
   \<and> console_shim ''log'' [circular_object] = [send ''log'' (JStr ''[object]'')]"
proof -
  have "sandbox_messages circular_return
      = Some [send ''error'' (JStr ''TypeError: Converting circular structure to JSON''),
              send ''done'' (JStr ''error'')]"
    by (simp add: circular_return_def circular_object_def circular_error_def
          sandbox_messages_def wrapper_messages_def emitted_def on_return_def
          result_payload_def on_catch_def or_else_def)
  moreover have "console_shim ''log'' [circular_object] = [send ''log'' (JStr ''[object]'')]"
    by (simp add: circular_object_def console_shim_def serialise_def)
  ultimately show ?thesis
    by (simp add: scenario_runs)
qed

end
